theory Spec2Isabelle
  imports Main
begin

section \<open>Online serving: \<open>infer_as_serving\<close> of the sequential quick-start notebook\<close>

text \<open>
  The notebook \<^verbatim>\<open>examples/00_quick_start/sequential_recsys_amazondataset.ipynb\<close>
  defines two pieces of Python of its own: the class \<^verbatim>\<open>LoadFrozedPredModel\<close>
  and the function \<^verbatim>\<open>infer_as_serving\<close>. Everything else it calls lives in the
  training framework or in \<^verbatim>\<open>reco_utils\<close>; those parts enter the model as
  parameters: the session's \<^verbatim>\<open>run\<close>, the iterator's \<^verbatim>\<open>load_data_from_file\<close>
  and Python's rendering of one score by \<^verbatim>\<open>'{0}'.format\<close>.
\<close>

subsection \<open>Values\<close>

type_synonym path = string

text \<open>A tensor of a graph is known by its name, as \<^verbatim>\<open>get_tensor_by_name\<close> finds it.\<close>

type_synonym tensor = string

datatype error =
  KeyError | TypeError | OpError | FileNotFoundError | IsADirectoryError | PermissionError

text \<open>
  The file system: the text content of each existing file, and the operating system's
  answer to \<^verbatim>\<open>open(path, "w")\<close>: the exception it raises for that path (an empty
  name, a missing directory, a directory, a file that may not be written), or none.
\<close>

record filesystem =
  contents :: "path \<rightharpoonup> string"
  open_error :: "path \<Rightarrow> error option"

text \<open>An n-dimensional array, as \<^verbatim>\<open>sess.run\<close> returns it: a scalar or a row of arrays.\<close>

datatype 'a ndarray = Scalar 'a | Arr "'a ndarray list"

text \<open>\<^verbatim>\<open>np.reshape(a, -1)\<close>: all elements of the array in row-major order.\<close>

fun reshape_flat :: "'a ndarray \<Rightarrow> 'a list" where
  "reshape_flat (Scalar a) = [a]"
| "reshape_flat (Arr rows) = concat (map reshape_flat rows)"

text \<open>
  What the iterator yields for one batch: a dictionary from the iterator's placeholders
  to the batch's arrays, or \<^verbatim>\<open>None\<close>.
\<close>

datatype ('k, 'v) batch = PyNone | PyDict "('k \<times> 'v) list"

text \<open>Python's truth value: \<^verbatim>\<open>None\<close> and the empty dictionary are falsy.\<close>

fun truthy :: "('k, 'v) batch \<Rightarrow> bool" where
  "truthy PyNone = False"
| "truthy (PyDict d) = (d \<noteq> [])"

text \<open>Subscription \<^verbatim>\<open>batch_data_input[key]\<close>.\<close>

fun getitem :: "('k, 'v) batch \<Rightarrow> 'k \<Rightarrow> error + 'v" where
  "getitem PyNone k = Inl TypeError"
| "getitem (PyDict d) k = (case map_of d k of None \<Rightarrow> Inl KeyError | Some v \<Rightarrow> Inr v)"

text \<open>The values fed to the graph's input nodes.\<close>

datatype 'v feed_value = NpOnes nat | PyBool bool | Fed 'v

type_synonym 'v feed_dict = "tensor \<rightharpoonup> 'v feed_value"

text \<open>\<^verbatim>\<open>sess.run(fetch, feed_dict=...)\<close>, which belongs to the framework.\<close>

type_synonym ('v, 'a) session = "tensor \<Rightarrow> 'v feed_dict \<Rightarrow> error + 'a ndarray"

subsection \<open>The iterator and the frozen model\<close>

record ('k, 'v) iterator =
  items :: 'k
  cates :: 'k
  item_history :: 'k
  item_cate_history :: 'k
  mask :: 'k
  time_from_first_action :: 'k
  time_to_now :: 'k
  load_data_from_file :: "filesystem \<Rightarrow> path \<Rightarrow> nat \<Rightarrow> ('k, 'v) batch list"

record LoadFrozedPredModel =
  pred :: tensor
  items :: tensor
  cates :: tensor
  item_history :: tensor
  item_cate_history :: tensor
  mask :: tensor
  time_from_first_action :: tensor
  time_to_now :: tensor
  layer_keeps :: tensor
  is_training :: tensor

text \<open>A graph, as far as the notebook uses it: the names of its tensors.\<close>

type_synonym graph = "tensor list"

definition get_tensor_by_name :: "graph \<Rightarrow> string \<Rightarrow> error + tensor" where
  "get_tensor_by_name g name = (if name \<in> set g then Inr name else Inl KeyError)"

definition bind :: "error + 'a \<Rightarrow> ('a \<Rightarrow> error + 'b) \<Rightarrow> error + 'b" where
  "bind r f = (case r of Inl e \<Rightarrow> Inl e | Inr a \<Rightarrow> f a)"

text \<open>\<^verbatim>\<open>LoadFrozedPredModel.__init__\<close>: ten lookups by name, in the order of the source.\<close>

definition init_LoadFrozedPredModel :: "graph \<Rightarrow> error + LoadFrozedPredModel" where
  "init_LoadFrozedPredModel g =
     bind (get_tensor_by_name g ''import/pred:0'') (\<lambda>t0.
     bind (get_tensor_by_name g ''import/items:0'') (\<lambda>t1.
     bind (get_tensor_by_name g ''import/cates:0'') (\<lambda>t2.
     bind (get_tensor_by_name g ''import/item_history:0'') (\<lambda>t3.
     bind (get_tensor_by_name g ''import/item_cate_history:0'') (\<lambda>t4.
     bind (get_tensor_by_name g ''import/mask:0'') (\<lambda>t5.
     bind (get_tensor_by_name g ''import/time_from_first_action:0'') (\<lambda>t6.
     bind (get_tensor_by_name g ''import/time_to_now:0'') (\<lambda>t7.
     bind (get_tensor_by_name g ''import/layer_keeps:0'') (\<lambda>t8.
     bind (get_tensor_by_name g ''import/is_training:0'') (\<lambda>t9.
     Inr \<lparr> pred = t0, items = t1, cates = t2, item_history = t3, item_cate_history = t4,
           mask = t5, time_from_first_action = t6, time_to_now = t7,
           layer_keeps = t8, is_training = t9 \<rparr>))))))))))"

subsection \<open>\<open>infer_as_serving\<close>\<close>

text \<open>
  The dictionary literal of the loop body. Its seven subscriptions of the batch are
  evaluated in the order written; a later entry of a Python dictionary replaces an
  earlier one with the same key.
\<close>

definition feed_dict_of ::
  "LoadFrozedPredModel \<Rightarrow> ('k, 'v) iterator \<Rightarrow> ('k, 'v) batch \<Rightarrow> error + 'v feed_dict" where
  "feed_dict_of model iterator batch_data_input =
     bind (getitem batch_data_input (iterator.items iterator)) (\<lambda>v1.
     bind (getitem batch_data_input (iterator.cates iterator)) (\<lambda>v2.
     bind (getitem batch_data_input (iterator.item_history iterator)) (\<lambda>v3.
     bind (getitem batch_data_input (iterator.item_cate_history iterator)) (\<lambda>v4.
     bind (getitem batch_data_input (iterator.mask iterator)) (\<lambda>v5.
     bind (getitem batch_data_input (iterator.time_from_first_action iterator)) (\<lambda>v6.
     bind (getitem batch_data_input (iterator.time_to_now iterator)) (\<lambda>v7.
     Inr (Map.empty
       (layer_keeps model \<mapsto> NpOnes 3,
        is_training model \<mapsto> PyBool False,
        items model \<mapsto> Fed v1,
        cates model \<mapsto> Fed v2,
        item_history model \<mapsto> Fed v3,
        item_cate_history model \<mapsto> Fed v4,
        mask model \<mapsto> Fed v5,
        time_from_first_action model \<mapsto> Fed v6,
        time_to_now model \<mapsto> Fed v7)))))))))"

text \<open>
  The \<^verbatim>\<open>for\<close> loop over the batches, with the list \<^verbatim>\<open>preds\<close> as accumulator.
  An exception of a subscription or of \<^verbatim>\<open>sess.run\<close> leaves the loop and the function.
\<close>

fun infer_loop ::
  "LoadFrozedPredModel \<Rightarrow> ('k, 'v) iterator \<Rightarrow> ('v, 'a) session \<Rightarrow>
   ('k, 'v) batch list \<Rightarrow> 'a list \<Rightarrow> error + 'a list" where
  "infer_loop model iterator sess [] preds = Inr preds"
| "infer_loop model iterator sess (batch_data_input # rest) preds =
     (if truthy batch_data_input then
        (case feed_dict_of model iterator batch_data_input of
           Inl e \<Rightarrow> Inl e
         | Inr feed_dict \<Rightarrow>
             (case sess (pred model) feed_dict of
                Inl e \<Rightarrow> Inl e
              | Inr step_pred \<Rightarrow>
                  infer_loop model iterator sess rest (preds @ reshape_flat step_pred)))
      else infer_loop model iterator sess rest preds)"

definition newline :: char where
  "newline = CHR 0x0A"

text \<open>
  The second loop: one \<^verbatim>\<open>wt.write('{0}\n'.format(line))\<close> for each element of
  \<^verbatim>\<open>preds\<close>, appending to what the handle has written so far.
\<close>

fun write_preds :: "('a \<Rightarrow> string) \<Rightarrow> 'a list \<Rightarrow> string \<Rightarrow> string" where
  "write_preds fmt [] written = written"
| "write_preds fmt (line # rest) written = write_preds fmt rest (written @ fmt line @ [newline])"

text \<open>
  The whole function, returning the file system it leaves behind and the exception it
  raised, if any. An exception of the first loop leaves the function before the output
  file is touched. \<^verbatim>\<open>open(outfile, "w")\<close> is not guarded: where it raises, the
  exception leaves the function and no file is created or changed. Where it opens, the
  file starts empty, and leaving the \<^verbatim>\<open>with\<close> block stores what was written; writing
  to the open handle and closing it are taken to succeed. The argument \<^verbatim>\<open>hparams\<close>
  is not used by the body.
\<close>

definition infer_as_serving ::
  "LoadFrozedPredModel \<Rightarrow> path \<Rightarrow> path \<Rightarrow> 'h \<Rightarrow> ('k, 'v) iterator \<Rightarrow> ('v, 'a) session \<Rightarrow>
   ('a \<Rightarrow> string) \<Rightarrow> filesystem \<Rightarrow> filesystem \<times> error option" where
  "infer_as_serving model infile outfile hparams iterator sess fmt fs =
     (case infer_loop model iterator sess (load_data_from_file iterator fs infile 0) [] of
        Inl e \<Rightarrow> (fs, Some e)
      | Inr preds \<Rightarrow>
          (case open_error fs outfile of
             Some e \<Rightarrow> (fs, Some e)
           | None \<Rightarrow>
               (fs\<lparr>contents := (contents fs)(outfile \<mapsto> write_preds fmt preds [])\<rparr>, None)))"

text \<open>
  The top-level statements of the notebook's last code cell, once the frozen graph has
  been read and imported into the session's graph \<open>g\<close>: look the nodes up, then serve
  the test file into \<^verbatim>\<open>output_serving.txt\<close>.
\<close>

definition online_serving ::
  "graph \<Rightarrow> path \<Rightarrow> path \<Rightarrow> 'h \<Rightarrow> ('k, 'v) iterator \<Rightarrow> ('v, 'a) session \<Rightarrow>
   ('a \<Rightarrow> string) \<Rightarrow> filesystem \<Rightarrow> filesystem \<times> error option" where
  "online_serving g test_file serving_output_file hparams iterator sess fmt fs =
     (case init_LoadFrozedPredModel g of
        Inl e \<Rightarrow> (fs, Some e)
      | Inr model \<Rightarrow>
          infer_as_serving model test_file serving_output_file hparams iterator sess fmt fs)"

subsection \<open>Reading a text file line by line\<close>



section \<open>The nightly Windows CPU pipeline\<close>

text \<open>
  The pipeline file declares one job, \<^verbatim>\<open>nightly\<close>, with six steps. A script step is a
  list of command lines; the two \<^verbatim>\<open>pytest\<close> lines of the step \<^verbatim>\<open>Run Tests\<close> are
  the only ones that run tests. Each selects, among the tests collected under its target
  directory, those whose markers satisfy the expression given with \<^verbatim>\<open>-m\<close>.
  The other command lines are kept as text and have no effect on which tests run; in
  them the backslashes of the Windows paths are written as slashes and the double quotes
  are left out.
\<close>

subsection \<open>Marker expressions\<close>

datatype mexpr = Ident string | MNot mexpr | MAnd mexpr mexpr | MOr mexpr mexpr

text \<open>An identifier is true on a test that carries the marker of that name.\<close>

fun matches :: "string list \<Rightarrow> mexpr \<Rightarrow> bool" where
  "matches ms (Ident m) = (m \<in> set ms)"
| "matches ms (MNot e) = (\<not> matches ms e)"
| "matches ms (MAnd a b) = (matches ms a \<and> matches ms b)"
| "matches ms (MOr a b) = (matches ms a \<or> matches ms b)"

fun split_on :: "'a \<Rightarrow> 'a list \<Rightarrow> 'a list list" where
  "split_on sep [] = [[]]"
| "split_on sep (x # xs) =
     (if x = sep then [] # split_on sep xs
      else (case split_on sep xs of [] \<Rightarrow> [[x]] | p # ps \<Rightarrow> (x # p) # ps))"

definition words :: "string \<Rightarrow> string list" where
  "words s = filter (\<lambda>w. w \<noteq> []) (split_on (CHR '' '') s)"

definition is_ident :: "string \<Rightarrow> bool" where
  "is_ident w = (w \<noteq> [] \<and> w \<notin> {''and'', ''or'', ''not''} \<and>
                 CHR ''('' \<notin> set w \<and> CHR '')'' \<notin> set w)"

text \<open>
  The expression grammar without parentheses: \<^verbatim>\<open>not\<close> binds tighter than
  \<^verbatim>\<open>and\<close>, which binds tighter than \<^verbatim>\<open>or\<close>; both are left-associative. A text
  outside this fragment has no parse.
\<close>

fun parse_not :: "string list \<Rightarrow> mexpr option" where
  "parse_not [] = None"
| "parse_not (w # ws) =
     (if w = ''not'' then map_option MNot (parse_not ws)
      else if ws = [] \<and> is_ident w then Some (Ident w)
      else None)"

definition join_with ::
  "(mexpr \<Rightarrow> mexpr \<Rightarrow> mexpr) \<Rightarrow> mexpr option list \<Rightarrow> mexpr option" where
  "join_with node parts =
     (case parts of
        [] \<Rightarrow> None
      | p # ps \<Rightarrow>
          foldl (\<lambda>acc q. case acc of None \<Rightarrow> None
                          | Some a \<Rightarrow> (case q of None \<Rightarrow> None | Some b \<Rightarrow> Some (node a b)))
                p ps)"

definition parse_and :: "string list \<Rightarrow> mexpr option" where
  "parse_and ts = join_with MAnd (map parse_not (split_on ''and'' ts))"

definition parse_or :: "string list \<Rightarrow> mexpr option" where
  "parse_or ts = join_with MOr (map parse_and (split_on ''or'' ts))"

definition parse_expr :: "string \<Rightarrow> mexpr option" where
  "parse_expr s = parse_or (words s)"

subsection \<open>Tests and the commands that run them\<close>

record test_item =
  nodeid :: string
  markers :: "string list"

record pytest_cmd =
  target :: string
  durations :: nat
  marker_expr :: string
  junitxml :: string

text \<open>A test is collected for a target directory when its id lies below that directory.\<close>

definition collected :: "string \<Rightarrow> test_item \<Rightarrow> bool" where
  "collected dir t = (take (length dir + 1) (nodeid t) = dir @ ''/'')"

text \<open>
  The tests one \<^verbatim>\<open>pytest\<close> line runs. An empty marker expression deselects nothing;
  one without a parse is a usage error, and no test runs.
\<close>

definition pytest_run :: "pytest_cmd \<Rightarrow> test_item list \<Rightarrow> test_item list" where
  "pytest_run cmd suite =
     (if words (marker_expr cmd) = [] then filter (collected (target cmd)) suite
      else (case parse_expr (marker_expr cmd) of
              None \<Rightarrow> []
            | Some e \<Rightarrow>
                filter (\<lambda>t. collected (target cmd) t \<and> matches (markers t) e) suite))"

datatype command = Shell string | Pytest pytest_cmd

datatype step = Script string "command list" | Task string string

fun command_tests :: "test_item list \<Rightarrow> command \<Rightarrow> test_item list" where
  "command_tests suite (Shell line) = []"
| "command_tests suite (Pytest cmd) = pytest_run cmd suite"

fun step_tests :: "test_item list \<Rightarrow> step \<Rightarrow> test_item list" where
  "step_tests suite (Script name cmds) = concat (map (command_tests suite) cmds)"
| "step_tests suite (Task task name) = []"

subsection \<open>The job \<open>nightly\<close>\<close>

definition smoke_tests :: pytest_cmd where
  "smoke_tests = \<lparr> target = ''tests/smoke'', durations = 0,
                   marker_expr = ''smoke and not spark and not gpu'',
                   junitxml = ''reports/test-smoke.xml'' \<rparr>"

definition integration_tests :: pytest_cmd where
  "integration_tests = \<lparr> target = ''tests/integration'', durations = 0,
                         marker_expr = ''integration and not spark and not gpu'',
                         junitxml = ''reports/test-integration.xml'' \<rparr>"

definition nightly :: "step list" where
  "nightly =
     [Script ''Remove Conda Env if it exists''
        [Shell ''call conda env remove -n nightly_reco_base -y'',
         Shell ''if exist C:/Anaconda/envs/nightly_reco_base rmdir /s /q C:/Anaconda/envs/nightly_reco_base''],
      Script ''Setup Conda Env''
        [Shell ''python ./tools/generate_conda_file.py --name nightly_reco_base'',
         Shell ''call conda env create -f nightly_reco_base.yaml''],
      Script ''Run Tests''
        [Shell ''call conda activate nightly_reco_base'',
         Shell ''echo Smoke tests'',
         Pytest smoke_tests,
         Shell ''echo Integration tests'',
         Pytest integration_tests],
      Task ''PublishTestResults@2'' ''Publish Test Results '',
      Script ''Conda remove''
        [Shell ''call conda env remove -n nightly_reco_base -y'',
         Shell ''if exist C:/Anaconda/envs/nightly_reco_base rmdir /s /q C:/Anaconda/envs/nightly_reco_base''],
      Script ''Remove Temp Files''
        [Shell ''del /q /S %LOCALAPPDATA%/Temp/*'',
         Shell ''for /d %%i in (%LOCALAPPDATA%/Temp/*) do @rmdir /s /q %%i'']]"

definition job_tests :: "step list \<Rightarrow> test_item list \<Rightarrow> test_item list" where
  "job_tests steps suite = concat (map (step_tests suite) steps)"

section \<open>Example inputs\<close>

text \<open>A serving run on three batches, the second of them \<^verbatim>\<open>None\<close>.\<close>

definition example_iterator :: "(string, nat list) iterator" where
  "example_iterator =
     \<lparr> iterator.items = ''items'', iterator.cates = ''cates'',
       iterator.item_history = ''item_history'',
       iterator.item_cate_history = ''item_cate_history'', iterator.mask = ''mask'',
       iterator.time_from_first_action = ''time_from_first_action'',
       iterator.time_to_now = ''time_to_now'',
       load_data_from_file = (\<lambda>fs infile batch_num_ngs.
         [PyDict [(''items'', [1, 0]), (''cates'', [4, 4]), (''item_history'', [2, 3]),
                  (''item_cate_history'', [4, 4]), (''mask'', [1, 1]),
                  (''time_from_first_action'', [5, 6]), (''time_to_now'', [7, 8])],
          PyNone,
          PyDict [(''items'', [0]), (''cates'', [4]), (''item_history'', [2]),
                  (''item_cate_history'', [4]), (''mask'', [1]),
                  (''time_from_first_action'', [5]), (''time_to_now'', [7])]]) \<rparr>"

definition example_graph :: graph where
  "example_graph =
     [''import/pred:0'', ''import/items:0'', ''import/cates:0'', ''import/item_history:0'',
      ''import/item_cate_history:0'', ''import/mask:0'', ''import/time_from_first_action:0'',
      ''import/time_to_now:0'', ''import/layer_keeps:0'', ''import/is_training:0'']"

definition example_model :: LoadFrozedPredModel where
  "example_model =
     \<lparr> pred = ''import/pred:0'', items = ''import/items:0'', cates = ''import/cates:0'',
       item_history = ''import/item_history:0'',
       item_cate_history = ''import/item_cate_history:0'', mask = ''import/mask:0'',
       time_from_first_action = ''import/time_from_first_action:0'',
       time_to_now = ''import/time_to_now:0'', layer_keeps = ''import/layer_keeps:0'',
       is_training = ''import/is_training:0'' \<rparr>"

text \<open>
  A session whose \<^verbatim>\<open>pred\<close> node gives one score, already rendered, per fed item. Its
  item vocabulary has the two ids 0 and 1; as an embedding lookup does, the run raises on
  an id outside it.
\<close>

definition example_sess :: "(nat list, string) session" where
  "example_sess fetch feed =
     (if fetch = ''import/pred:0'' then
        (case feed ''import/items:0'' of
           Some (Fed v) \<Rightarrow>
             (if list_all (\<lambda>i. i < 2) v
              then Inr (Arr (map (\<lambda>i. Arr [Scalar (if i = 0 then ''0.25'' else ''0.75'')]) v))
              else Inl OpError)
         | _ \<Rightarrow> Inl OpError)
      else Inl OpError)"


text \<open>
  A file system with an output file left by an earlier run; the empty name and the
  paths below the directory \<^verbatim>\<open>missing_dir\<close>, which does not exist, cannot be opened.
\<close>

definition example_fs :: filesystem where
  "example_fs =
     \<lparr> contents = [''output_serving.txt'' \<mapsto> ''stale''],
       open_error = (\<lambda>p. if p = [] \<or> take 12 p = ''missing_dir/''
                          then Some FileNotFoundError else None) \<rparr>"

definition example_suite :: "test_item list" where
  "example_suite =
     [\<lparr> nodeid = ''tests/smoke/test_sar.py::test_sar_smoke'', markers = [''smoke''] \<rparr>,
      \<lparr> nodeid = ''tests/smoke/test_als.py::test_als_smoke'', markers = [''smoke'', ''spark''] \<rparr>,
      \<lparr> nodeid = ''tests/smoke/test_ncf.py::test_ncf_smoke'', markers = [''smoke'', ''gpu''] \<rparr>,
      \<lparr> nodeid = ''tests/integration/test_sar.py::test_sar_all'', markers = [''integration''] \<rparr>,
      \<lparr> nodeid = ''tests/integration/test_ncf.py::test_ncf_all'', markers = [''gpu'', ''integration''] \<rparr>,
      \<lparr> nodeid = ''tests/unit/test_utils.py::test_utils'', markers = [] \<rparr>]"

section \<open>Properties of the serving function\<close>

lemma write_preds_append:
  "write_preds fmt ps written = written @ concat (map (\<lambda>s. fmt s @ [newline]) ps)"
  by (induction ps arbitrary: written) simp_all



text \<open>
  When every truthy batch can be fed and run, the loop appends the flattened results of
  the runs, batch after batch, to what it started with.
\<close>

lemma infer_loop_scores:
  "list_all2 (\<lambda>b r. \<exists>fd. feed_dict_of model iterator b = Inr fd \<and> sess (pred model) fd = Inr r)
     (filter truthy batches) rs \<Longrightarrow>
   infer_loop model iterator sess batches preds = Inr (preds @ concat (map reshape_flat rs))"
proof (induction batches arbitrary: preds rs)
  case Nil
  then show ?case by simp
next
  case (Cons b batches)
  show ?case
  proof (cases "truthy b")
    case False
    with Cons show ?thesis by simp
  next
    case True
    with Cons.prems obtain r rs' fd where rs: "rs = r # rs'"
      and fd: "feed_dict_of model iterator b = Inr fd" and run: "sess (pred model) fd = Inr r"
      and rest: "list_all2 (\<lambda>b r. \<exists>fd. feed_dict_of model iterator b = Inr fd \<and>
                     sess (pred model) fd = Inr r) (filter truthy batches) rs'"
      by (auto simp: list_all2_Cons1)
    from Cons.IH [OF rest] True fd run rs show ?thesis by simp
  qed
qed

text \<open>
  Where the loop ends normally, each element of its result was there at the start or is
  an element of what the session returned for the node \<open>pred\<close> on a truthy batch.
\<close>

lemma infer_loop_provenance:
  "infer_loop model iterator sess batches preds = Inr out \<Longrightarrow> s \<in> set out \<Longrightarrow>
   s \<in> set preds \<or>
   (\<exists>b \<in> set batches. \<exists>fd r. truthy b \<and> feed_dict_of model iterator b = Inr fd \<and>
       sess (pred model) fd = Inr r \<and> s \<in> set (reshape_flat r))"
proof (induction batches arbitrary: preds)
  case Nil
  then show ?case by simp
next
  case (Cons b batches)
  show ?case
  proof (cases "truthy b")
    case False
    with Cons.prems have "infer_loop model iterator sess batches preds = Inr out" by simp
    from Cons.IH [OF this Cons.prems(2)] show ?thesis by auto
  next
    case True
    with Cons.prems(1) obtain fd r where fd: "feed_dict_of model iterator b = Inr fd"
      and run: "sess (pred model) fd = Inr r"
      and rest: "infer_loop model iterator sess batches (preds @ reshape_flat r) = Inr out"
      by (auto split: sum.splits)
    from Cons.IH [OF rest Cons.prems(2)] True fd run show ?thesis by auto
  qed
qed

text \<open>
  The written file holds nothing but rendered session results: when \<open>infer_as_serving\<close>
  returns, the output file is the rendering of a list of scores, each of them an element
  of a result of \<open>sess\<close> at the node \<open>pred\<close> of the model.
\<close>

lemma infer_as_serving_scores_from_session:
  assumes "infer_as_serving model infile outfile hparams iterator sess fmt fs = (fs', None)"
  shows "\<exists>preds.
           fs' = fs\<lparr>contents := (contents fs)(outfile \<mapsto>
                                  concat (map (\<lambda>s. fmt s @ [newline]) preds))\<rparr> \<and>
           (\<forall>s \<in> set preds. \<exists>b \<in> set (load_data_from_file iterator fs infile 0). \<exists>fd r.
               truthy b \<and> feed_dict_of model iterator b = Inr fd \<and>
               sess (pred model) fd = Inr r \<and> s \<in> set (reshape_flat r))"
proof -
  from assms obtain preds where
    loop: "infer_loop model iterator sess (load_data_from_file iterator fs infile 0) [] = Inr preds"
    and fs': "fs' = fs\<lparr>contents := (contents fs)(outfile \<mapsto> write_preds fmt preds [])\<rparr>"
    by (auto simp: infer_as_serving_def split: sum.splits option.splits)
  from fs' have "fs' = fs\<lparr>contents := (contents fs)(outfile \<mapsto>
                                  concat (map (\<lambda>s. fmt s @ [newline]) preds))\<rparr>"
    by (simp add: write_preds_append)
  moreover from infer_loop_provenance [OF loop]
  have "\<forall>s \<in> set preds. \<exists>b \<in> set (load_data_from_file iterator fs infile 0). \<exists>fd r.
               truthy b \<and> feed_dict_of model iterator b = Inr fd \<and>
               sess (pred model) fd = Inr r \<and> s \<in> set (reshape_flat r)"
    by simp
  ultimately show ?thesis by blast
qed

text \<open>
  An exception in the first loop leaves the function before the output file is opened,
  and an exception of \<^verbatim>\<open>open\<close> leaves it before anything is written: in both cases
  the file system stays as it was.
\<close>

lemma infer_as_serving_raises:
  "infer_loop model iterator sess (load_data_from_file iterator fs infile 0) [] = Inl e \<Longrightarrow>
   infer_as_serving model infile outfile hparams iterator sess fmt fs = (fs, Some e)"
  by (simp add: infer_as_serving_def)

lemma infer_as_serving_open_raises:
  "infer_loop model iterator sess (load_data_from_file iterator fs infile 0) [] = Inr preds \<Longrightarrow>
   open_error fs outfile = Some e \<Longrightarrow>
   infer_as_serving model infile outfile hparams iterator sess fmt fs = (fs, Some e)"
  by (simp add: infer_as_serving_def)

lemma infer_as_serving_exception_keeps_files:
  "infer_as_serving model infile outfile hparams iterator sess fmt fs = (fs', Some e) \<Longrightarrow> fs' = fs"
  by (auto simp: infer_as_serving_def split: sum.splits option.splits)

text \<open>
  Conversely, a loop that ends normally has fed and run every truthy batch, so the
  results of the runs exist, one for each truthy batch in order.
\<close>

lemma infer_loop_returns:
  "infer_loop model iterator sess batches preds = Inr out \<Longrightarrow>
   \<exists>rs. list_all2 (\<lambda>b r. \<exists>fd. feed_dict_of model iterator b = Inr fd \<and>
                     sess (pred model) fd = Inr r) (filter truthy batches) rs"
proof (induction batches arbitrary: preds)
  case Nil
  then show ?case by simp
next
  case (Cons b batches)
  show ?case
  proof (cases "truthy b")
    case False
    with Cons.prems have "infer_loop model iterator sess batches preds = Inr out" by simp
    from Cons.IH [OF this] False show ?thesis by simp
  next
    case True
    with Cons.prems obtain fd r where fd: "feed_dict_of model iterator b = Inr fd"
      and run: "sess (pred model) fd = Inr r"
      and rest: "infer_loop model iterator sess batches (preds @ reshape_flat r) = Inr out"
      by (auto split: sum.splits)
    from Cons.IH [OF rest] obtain rs where
      "list_all2 (\<lambda>b r. \<exists>fd. feed_dict_of model iterator b = Inr fd \<and>
          sess (pred model) fd = Inr r) (filter truthy batches) rs" ..
    with True fd run have
      "list_all2 (\<lambda>b r. \<exists>fd. feed_dict_of model iterator b = Inr fd \<and>
          sess (pred model) fd = Inr r) (filter truthy (b # batches)) (r # rs)"
      by simp
    then show ?thesis ..
  qed
qed

lemma get_tensor_by_name_Inr:
  "get_tensor_by_name g name = Inr t \<Longrightarrow> t = name \<and> name \<in> set g"
  by (auto simp: get_tensor_by_name_def split: if_splits)

text \<open>The node \<open>pred\<close> of a loaded model is the tensor \<^verbatim>\<open>import/pred:0\<close> of the graph.\<close>

lemma init_LoadFrozedPredModel_pred:
  "init_LoadFrozedPredModel g = Inr m \<Longrightarrow> pred m = ''import/pred:0'' \<and> pred m \<in> set g"
  by (auto simp: init_LoadFrozedPredModel_def bind_def split: sum.splits
      dest!: get_tensor_by_name_Inr)

text \<open>
  The function returns without an exception exactly when every truthy batch can be fed
  and run and the output file can be opened.
\<close>

lemma infer_as_serving_returns_iff:
  "snd (infer_as_serving model infile outfile hparams iterator sess fmt fs) = None \<longleftrightarrow>
   (\<exists>rs. list_all2 (\<lambda>b r. \<exists>fd. feed_dict_of model iterator b = Inr fd \<and>
                      sess (pred model) fd = Inr r)
            (filter truthy (load_data_from_file iterator fs infile 0)) rs) \<and>
   open_error fs outfile = None"
proof
  assume ret: "snd (infer_as_serving model infile outfile hparams iterator sess fmt fs) = None"
  then obtain preds where
    loop: "infer_loop model iterator sess (load_data_from_file iterator fs infile 0) [] = Inr preds"
    and opens: "open_error fs outfile = None"
    by (auto simp: infer_as_serving_def split: sum.splits option.splits)
  from infer_loop_returns [OF loop] opens
  show "(\<exists>rs. list_all2 (\<lambda>b r. \<exists>fd. feed_dict_of model iterator b = Inr fd \<and>
                      sess (pred model) fd = Inr r)
            (filter truthy (load_data_from_file iterator fs infile 0)) rs) \<and>
        open_error fs outfile = None"
    by simp
next
  assume "(\<exists>rs. list_all2 (\<lambda>b r. \<exists>fd. feed_dict_of model iterator b = Inr fd \<and>
                      sess (pred model) fd = Inr r)
            (filter truthy (load_data_from_file iterator fs infile 0)) rs) \<and>
        open_error fs outfile = None"
  then obtain rs where
    runs: "list_all2 (\<lambda>b r. \<exists>fd. feed_dict_of model iterator b = Inr fd \<and>
                      sess (pred model) fd = Inr r)
            (filter truthy (load_data_from_file iterator fs infile 0)) rs"
    and opens: "open_error fs outfile = None"
    by blast
  from runs
  have "infer_loop model iterator sess (load_data_from_file iterator fs infile 0) [] =
          Inr ([] @ concat (map reshape_flat rs))"
    by (rule infer_loop_scores)
  with opens show "snd (infer_as_serving model infile outfile hparams iterator sess fmt fs) = None"
    by (simp add: infer_as_serving_def)
qed

text \<open>
  The same for the whole cell: what it writes are renderings of elements of results the
  session returned for the tensor \<^verbatim>\<open>import/pred:0\<close>, a tensor of the imported graph.
\<close>

lemma online_serving_scores_from_session:
  assumes "online_serving g test_file serving_output_file hparams iterator sess fmt fs
             = (fs', None)"
  shows "''import/pred:0'' \<in> set g \<and>
         (\<exists>preds. fs' = fs\<lparr>contents := (contents fs)(serving_output_file \<mapsto>
                                  concat (map (\<lambda>s. fmt s @ [newline]) preds))\<rparr> \<and>
            (\<forall>s \<in> set preds. \<exists>feed r. sess ''import/pred:0'' feed = Inr r \<and>
                                  s \<in> set (reshape_flat r)))"
proof -
  from assms obtain model where init: "init_LoadFrozedPredModel g = Inr model"
    and serve: "infer_as_serving model test_file serving_output_file hparams iterator sess fmt fs
                  = (fs', None)"
    by (auto simp: online_serving_def split: sum.splits)
  from init_LoadFrozedPredModel_pred [OF init]
  have node: "pred model = ''import/pred:0''" and mem: "''import/pred:0'' \<in> set g"
    by auto
  from infer_as_serving_scores_from_session [OF serve] node mem
  show ?thesis by fastforce
qed

text \<open>
  An output file below a directory that does not exist: all three scores are produced,
  \<^verbatim>\<open>open\<close> raises, and nothing is written.
\<close>

lemma infer_as_serving_missing_directory:
  "infer_as_serving example_model ''test_data'' ''missing_dir/out.txt'' () example_iterator
     example_sess (\<lambda>s. s) example_fs = (example_fs, Some FileNotFoundError)"
  by (simp add: infer_as_serving_def example_iterator_def example_model_def example_sess_def
      example_fs_def feed_dict_of_def bind_def)




section \<open>Properties of the nightly pipeline\<close>

lemma words_smoke:
  "words ''smoke and not spark and not gpu'' =
     [''smoke'', ''and'', ''not'', ''spark'', ''and'', ''not'', ''gpu'']"
  by (simp add: words_def)

lemma words_integration:
  "words ''integration and not spark and not gpu'' =
     [''integration'', ''and'', ''not'', ''spark'', ''and'', ''not'', ''gpu'']"
  by (simp add: words_def)

lemma parse_smoke:
  "parse_expr (marker_expr smoke_tests) =
     Some (MAnd (MAnd (Ident ''smoke'') (MNot (Ident ''spark''))) (MNot (Ident ''gpu'')))"
  by (simp add: parse_expr_def smoke_tests_def words_smoke parse_or_def parse_and_def
      join_with_def is_ident_def)

lemma parse_integration:
  "parse_expr (marker_expr integration_tests) =
     Some (MAnd (MAnd (Ident ''integration'') (MNot (Ident ''spark''))) (MNot (Ident ''gpu'')))"
  by (simp add: parse_expr_def integration_tests_def words_integration parse_or_def
      parse_and_def join_with_def is_ident_def)

lemma pytest_run_smoke:
  "pytest_run smoke_tests suite =
     filter (\<lambda>t. collected ''tests/smoke'' t \<and> ''smoke'' \<in> set (markers t) \<and>
                  ''spark'' \<notin> set (markers t) \<and> ''gpu'' \<notin> set (markers t)) suite"
proof -
  have "words (marker_expr smoke_tests) \<noteq> []"
    by (simp add: smoke_tests_def words_smoke)
  then show ?thesis
    unfolding pytest_run_def parse_smoke by (simp add: smoke_tests_def)
qed

lemma pytest_run_integration:
  "pytest_run integration_tests suite =
     filter (\<lambda>t. collected ''tests/integration'' t \<and> ''integration'' \<in> set (markers t) \<and>
                  ''spark'' \<notin> set (markers t) \<and> ''gpu'' \<notin> set (markers t)) suite"
proof -
  have "words (marker_expr integration_tests) \<noteq> []"
    by (simp add: integration_tests_def words_integration)
  then show ?thesis
    unfolding pytest_run_def parse_integration by (simp add: integration_tests_def)
qed

lemma job_tests_nightly:
  "job_tests nightly suite = pytest_run smoke_tests suite @ pytest_run integration_tests suite"
  by (simp add: job_tests_def nightly_def)

text \<open>
  Claim C8. Whatever the test suite, the tests the job \<open>nightly\<close> runs are those of the
  two \<^verbatim>\<open>pytest\<close> lines of its step \<^verbatim>\<open>Run Tests\<close>; every test the smoke line runs
  carries the marker \<^verbatim>\<open>smoke\<close>, every test the integration line runs carries the marker
  \<^verbatim>\<open>integration\<close>, and none of them carries the marker \<^verbatim>\<open>spark\<close> or the marker
  \<^verbatim>\<open>gpu\<close>.
\<close>

theorem nightly_runs_no_spark_or_gpu_test:
  "job_tests nightly suite = pytest_run smoke_tests suite @ pytest_run integration_tests suite
   \<and> (\<forall>t \<in> set (pytest_run smoke_tests suite).
          ''smoke'' \<in> set (markers t) \<and> ''spark'' \<notin> set (markers t) \<and> ''gpu'' \<notin> set (markers t))
   \<and> (\<forall>t \<in> set (pytest_run integration_tests suite).
          ''integration'' \<in> set (markers t) \<and> ''spark'' \<notin> set (markers t) \<and>
          ''gpu'' \<notin> set (markers t))"
  by (simp add: job_tests_nightly pytest_run_smoke pytest_run_integration)

text \<open>
  On the example suite the job runs one smoke test and one integration test, and leaves
  out the tests marked \<^verbatim>\<open>spark\<close> or \<^verbatim>\<open>gpu\<close> and the unit test.
\<close>

theorem nightly_runs_no_spark_or_gpu_test_witness:
  "job_tests nightly example_suite =
     [\<lparr> nodeid = ''tests/smoke/test_sar.py::test_sar_smoke'', markers = [''smoke''] \<rparr>,
      \<lparr> nodeid = ''tests/integration/test_sar.py::test_sar_all'', markers = [''integration''] \<rparr>]
   \<and> ''smoke'' \<in> set (markers (hd (pytest_run smoke_tests example_suite)))
   \<and> ''spark'' \<notin> set (markers (hd (pytest_run smoke_tests example_suite)))
   \<and> ''gpu'' \<notin> set (markers (hd (pytest_run smoke_tests example_suite)))
   \<and> ''integration'' \<in> set (markers (hd (pytest_run integration_tests example_suite)))
   \<and> ''spark'' \<notin> set (markers (hd (pytest_run integration_tests example_suite)))
   \<and> ''gpu'' \<notin> set (markers (hd (pytest_run integration_tests example_suite)))"
proof -
  have smoke: "pytest_run smoke_tests example_suite =
      [\<lparr> nodeid = ''tests/smoke/test_sar.py::test_sar_smoke'', markers = [''smoke''] \<rparr>]"
    by (simp add: pytest_run_smoke example_suite_def collected_def)
  have integration: "pytest_run integration_tests example_suite =
      [\<lparr> nodeid = ''tests/integration/test_sar.py::test_sar_all'', markers = [''integration''] \<rparr>]"
    by (simp add: pytest_run_integration example_suite_def collected_def)
  have m1: "hd (pytest_run smoke_tests example_suite) \<in> set (pytest_run smoke_tests example_suite)"
    by (simp add: smoke)
  have m2: "hd (pytest_run integration_tests example_suite)
              \<in> set (pytest_run integration_tests example_suite)"
    by (simp add: integration)
  from nightly_runs_no_spark_or_gpu_test [of example_suite] m1 m2 smoke integration
  show ?thesis by auto
qed

end
